theory Spec2Isabelle
  imports Complex_Main "HOL-Library.AList" "HOL-Library.Multiset"
begin

section \<open>Python strings, slices and sorting\<close>

text \<open>
  A Python \<open>str\<close> is a sequence of Unicode code points; a code point is a natural
  number here, so that the bullet U+2022 of \<open>expand_query\<close> and the Unicode white
  space of \<open>str.strip\<close> are what they are in Python. \<open>str\<close> reads an ASCII literal.
  Python floats are idealised as real numbers throughout.
\<close>

type_synonym pystr = "nat list"

definition str :: "string \<Rightarrow> pystr" where
  "str s = map of_char s"

definition is_space :: "nat \<Rightarrow> bool" where
  \<comment> \<open>the code points for which \<open>str.isspace\<close> holds\<close>
  "is_space c \<longleftrightarrow>
     (9 \<le> c \<and> c \<le> 13) \<or> (28 \<le> c \<and> c \<le> 32) \<or> c = 133 \<or> c = 160 \<or> c = 5760 \<or>
     (8192 \<le> c \<and> c \<le> 8202) \<or> c = 8232 \<or> c = 8233 \<or> c = 8239 \<or> c = 8287 \<or> c = 12288"

definition strip :: "pystr \<Rightarrow> pystr" where
  \<comment> \<open>\<open>s.strip()\<close>\<close>
  "strip s = rev (dropWhile is_space (rev (dropWhile is_space s)))"

definition lstrip_chars :: "pystr \<Rightarrow> pystr \<Rightarrow> pystr" where
  \<comment> \<open>\<open>s.lstrip(chars)\<close>\<close>
  "lstrip_chars chars s = dropWhile (\<lambda>c. c \<in> set chars) s"

fun split_on :: "nat \<Rightarrow> pystr \<Rightarrow> pystr list" where
  \<comment> \<open>\<open>s.split(sep)\<close> for a separator of one character\<close>
  "split_on sep [] = [[]]"
| "split_on sep (c # cs) =
     (if c = sep then [] # split_on sep cs
      else (case split_on sep cs of
              [] \<Rightarrow> [[c]]
            | l # ls \<Rightarrow> (c # l) # ls))"

definition py_index :: "nat \<Rightarrow> int \<Rightarrow> nat" where
  \<comment> \<open>a slice bound on a sequence of length \<open>n\<close>: a negative bound counts from the end,
      and every bound is clamped into \<open>0..n\<close>\<close>
  "py_index n i = (if i < 0 then nat (max 0 (i + int n)) else min (nat i) n)"

definition py_slice :: "'a list \<Rightarrow> int \<Rightarrow> int \<Rightarrow> 'a list" where
  \<comment> \<open>\<open>xs[a:b]\<close>\<close>
  "py_slice xs a b =
     (let lo = py_index (length xs) a; hi = py_index (length xs) b
      in take (hi - lo) (drop lo xs))"

definition rfind :: "'a list \<Rightarrow> 'a list \<Rightarrow> int" where
  \<comment> \<open>\<open>s.rfind(sub)\<close>: the highest index where \<open>sub\<close> starts, or \<open>-1\<close>\<close>
  "rfind s sub =
     (case filter (\<lambda>i. take (length sub) (drop i s) = sub)
             (rev [0..<Suc (length s) - length sub]) of
        [] \<Rightarrow> - 1
      | i # _ \<Rightarrow> int i)"

definition sort_desc :: "('a \<Rightarrow> real) \<Rightarrow> 'a list \<Rightarrow> 'a list" where
  \<comment> \<open>\<open>xs.sort(key=k, reverse=True)\<close>: Python's sort is stable, and with
      \<open>reverse=True\<close> elements of equal key keep their original order\<close>
  "sort_desc k xs = sort_key (\<lambda>x. - k x) xs"

section \<open>Chunks\<close>

record chunk =
  chunk_id :: int
  chunk_text :: pystr
  start_pos :: int
  end_pos :: int
  chunk_length :: nat

section \<open>hybrid\_retriever.py\<close>

datatype error = ValueError | AttributeError | ServiceError

text \<open>
  The embedding model, the cosine similarity of scikit-learn, the BM25 scores of
  rank\_bm25 and the regular expression of \<open>_tokenize\<close> are outside this development and
  come in as parameters. \<open>bm25_score corpus q i\<close> is the score of document \<open>i\<close> of the
  corpus, so that \<open>get_scores\<close> returns one score per document, as the library does.
\<close>

record 'e externals =
  encode :: "pystr \<Rightarrow> 'e"
  cosine :: "'e \<Rightarrow> 'e \<Rightarrow> real"
  tokenize :: "pystr \<Rightarrow> pystr list"
  bm25_score :: "pystr list list \<Rightarrow> pystr list \<Rightarrow> nat \<Rightarrow> real"

record 'e hybrid_retriever =
  cosine_weight :: real
  bm25_weight :: real
  threshold :: real
  chunks :: "chunk list"
  chunk_embeddings :: "'e list option"
  bm25 :: "pystr list list option"
  tokenized_chunks :: "pystr list list"

record retrieval_result =
  chunk :: chunk
  hybrid_score :: real
  cosine_score :: real
  bm25_score_norm :: real
  result_text :: pystr

definition init_retriever :: "real \<Rightarrow> real \<Rightarrow> real \<Rightarrow> 'e hybrid_retriever" where
  \<comment> \<open>\<open>HybridRetriever.__init__\<close>\<close>
  "init_retriever cw bw th =
     \<lparr>cosine_weight = cw, bm25_weight = bw, threshold = th, chunks = [],
      chunk_embeddings = None, bm25 = None, tokenized_chunks = []\<rparr>"

definition index_chunks ::
  "'e externals \<Rightarrow> 'e hybrid_retriever \<Rightarrow> chunk list \<Rightarrow> 'e hybrid_retriever" where
  "index_chunks ext r cs =
     (let texts = map chunk_text cs;
          toks = map (tokenize ext) texts
      in r\<lparr>chunks := cs,
           chunk_embeddings := Some (map (encode ext) texts),
           tokenized_chunks := toks,
           bm25 := Some toks\<rparr>)"

definition get_scores :: "'e externals \<Rightarrow> pystr list list \<Rightarrow> pystr list \<Rightarrow> real list" where
  "get_scores ext corpus q = map (bm25_score ext corpus q) [0..<length corpus]"

definition np_min :: "real list \<Rightarrow> real" where
  "np_min xs = fold min (tl xs) (hd xs)"

definition np_max :: "real list \<Rightarrow> real" where
  "np_max xs = fold max (tl xs) (hd xs)"

definition normalize_scores :: "real list \<Rightarrow> real list" where
  "normalize_scores scores =
     (if length scores = 0 then scores
      else
        let min_score = np_min scores;
            max_score = np_max scores
        in if max_score - min_score < 1 / 10 ^ 10 then replicate (length scores) 1
           else map (\<lambda>s. (s - min_score) / (max_score - min_score)) scores)"

definition cosine_scores :: "'e externals \<Rightarrow> 'e hybrid_retriever \<Rightarrow> pystr \<Rightarrow> real list" where
  "cosine_scores ext r query =
     map (cosine ext (encode ext query)) (the (chunk_embeddings r))"

definition bm25_scores_normalized ::
  "'e externals \<Rightarrow> 'e hybrid_retriever \<Rightarrow> pystr \<Rightarrow> real list" where
  "bm25_scores_normalized ext r query =
     normalize_scores (get_scores ext (the (bm25 r)) (tokenize ext query))"

definition hybrid_scores :: "'e externals \<Rightarrow> 'e hybrid_retriever \<Rightarrow> pystr \<Rightarrow> real list" where
  "hybrid_scores ext r query =
     map2 (\<lambda>c b. cosine_weight r * c + bm25_weight r * b)
       (cosine_scores ext r query) (bm25_scores_normalized ext r query)"

definition result_at ::
  "'e externals \<Rightarrow> 'e hybrid_retriever \<Rightarrow> pystr \<Rightarrow> nat \<Rightarrow> retrieval_result" where
  \<comment> \<open>the dictionary the loop of \<open>retrieve\<close> appends for index \<open>idx\<close>\<close>
  "result_at ext r query idx =
     \<lparr>chunk = chunks r ! idx,
      hybrid_score = hybrid_scores ext r query ! idx,
      cosine_score = cosine_scores ext r query ! idx,
      bm25_score_norm = bm25_scores_normalized ext r query ! idx,
      result_text = chunk_text (chunks r ! idx)\<rparr>"

definition scored_results ::
  "'e externals \<Rightarrow> 'e hybrid_retriever \<Rightarrow> pystr \<Rightarrow> retrieval_result list" where
  \<comment> \<open>\<open>results\<close> after the loop over \<open>enumerate(self.chunks)\<close>\<close>
  "scored_results ext r query =
     map (result_at ext r query)
       (filter (\<lambda>idx. hybrid_scores ext r query ! idx \<ge> threshold r)
          [0..<length (chunks r)])"

definition retrieve ::
  "'e externals \<Rightarrow> 'e hybrid_retriever \<Rightarrow> pystr \<Rightarrow> int \<Rightarrow> error + retrieval_result list" where
  "retrieve ext r query top_k =
     (if chunks r = [] \<or> chunk_embeddings r = None \<or> bm25 r = None then Inl ValueError
      else
        let results = scored_results ext r query
        in Inr (py_slice (sort_desc hybrid_score results) 0 top_k))"

section \<open>semantic\_query\_expander.py\<close>

text \<open>
  The one call to the paraphrase service inside the \<open>try\<close> block of \<open>expand_query\<close>
  either raises, or returns a response whose message content is a string, or returns a
  response from which \<open>content.strip()\<close> cannot be taken (content \<open>None\<close>).
\<close>

datatype service_outcome = Content pystr | NoContent | ServiceRaised

record expanded_result = retrieval_result +
  source_query :: pystr

definition tag_source :: "pystr \<Rightarrow> retrieval_result \<Rightarrow> expanded_result" where
  \<comment> \<open>\<open>result['source_query'] = expanded_query\<close>\<close>
  "tag_source q res =
     \<lparr>chunk = chunk res, hybrid_score = hybrid_score res, cosine_score = cosine_score res,
      bm25_score_norm = bm25_score_norm res, result_text = result_text res,
      source_query = q\<rparr>"

definition numbering_chars :: pystr where
  \<comment> \<open>the argument of \<open>lstrip\<close>; 8226 is the bullet U+2022\<close>
  "numbering_chars = str ''0123456789.-'' @ [8226] @ str ''*) ''"

definition fromkeys :: "'a list \<Rightarrow> ('a \<times> unit) list" where
  \<comment> \<open>\<open>dict.fromkeys(ks)\<close>: a dictionary keeps its keys in insertion order\<close>
  "fromkeys ks = fold (\<lambda>k d. AList.update k () d) ks []"

definition parse_response :: "pystr \<Rightarrow> pystr list" where
  "parse_response content =
     (let expanded_queries = split_on 10 (strip content);
          expanded_queries = map strip (filter (\<lambda>q. strip q \<noteq> []) expanded_queries);
          expanded_queries = map (\<lambda>q. strip (lstrip_chars numbering_chars q)) expanded_queries
      in map fst (fromkeys (filter (\<lambda>q. q \<noteq> []) expanded_queries)))"

definition try_expand :: "service_outcome \<Rightarrow> pystr \<Rightarrow> int \<Rightarrow> error + pystr list" where
  \<comment> \<open>the body of the \<open>try\<close> block\<close>
  "try_expand outcome query num_expansions =
     (case outcome of
        ServiceRaised \<Rightarrow> Inl ServiceError
      | NoContent \<Rightarrow> Inl AttributeError
      | Content content \<Rightarrow>
          Inr ([query] @ py_slice (parse_response content) 0 num_expansions))"

definition expand_query :: "service_outcome \<Rightarrow> pystr \<Rightarrow> int \<Rightarrow> pystr list" where
  \<comment> \<open>\<open>except Exception\<close> catches whatever the \<open>try\<close> block raises\<close>
  "expand_query outcome query num_expansions =
     (case try_expand outcome query num_expansions of
        Inr all_queries \<Rightarrow> all_queries
      | Inl e \<Rightarrow> [query])"

type_synonym result_dict = "(int \<times> expanded_result) list"

definition keep_best :: "pystr \<Rightarrow> retrieval_result \<Rightarrow> result_dict \<Rightarrow> result_dict" where
  \<comment> \<open>the body of the inner loop; the dictionary is an association list in insertion
      order, and assigning to a key that is present keeps the key's position\<close>
  "keep_best expanded_query res all_results =
     (let cid = chunk_id (chunk res)
      in if map_of all_results cid = None \<or>
            hybrid_score res > hybrid_score (the (map_of all_results cid))
         then AList.update cid (tag_source expanded_query res) all_results
         else all_results)"

fun fan_out ::
  "(pystr \<Rightarrow> int \<Rightarrow> 'x + retrieval_result list) \<Rightarrow> int \<Rightarrow> pystr list \<Rightarrow> result_dict
     \<Rightarrow> 'x + result_dict" where
  \<comment> \<open>the outer loop; \<open>retriever.retrieve\<close> is called outside any \<open>try\<close>, so what it
      raises leaves the loop and the function\<close>
  "fan_out retriever top_k_per_query [] all_results = Inr all_results"
| "fan_out retriever top_k_per_query (expanded_query # rest) all_results =
     (case retriever expanded_query top_k_per_query of
        Inl e \<Rightarrow> Inl e
      | Inr results \<Rightarrow>
          fan_out retriever top_k_per_query rest
            (fold (keep_best expanded_query) results all_results))"

definition merge_expanded ::
  "(pystr \<Rightarrow> int \<Rightarrow> 'x + retrieval_result list) \<Rightarrow> int \<Rightarrow> pystr list
     \<Rightarrow> 'x + expanded_result list" where
  \<comment> \<open>\<open>retrieve_with_expansion\<close> from the loop over \<open>expanded_queries\<close> to the end\<close>
  "merge_expanded retriever top_k_per_query expanded_queries =
     (case fan_out retriever top_k_per_query expanded_queries [] of
        Inl e \<Rightarrow> Inl e
      | Inr all_results \<Rightarrow> Inr (sort_desc hybrid_score (map snd all_results)))"

definition retrieve_with_expansion ::
  "service_outcome \<Rightarrow> (pystr \<Rightarrow> int \<Rightarrow> 'x + retrieval_result list) \<Rightarrow> pystr \<Rightarrow> int \<Rightarrow> int
     \<Rightarrow> 'x + expanded_result list" where
  "retrieve_with_expansion outcome retriever query num_expansions top_k_per_query =
     (let expanded_queries = expand_query outcome query num_expansions
      in merge_expanded retriever top_k_per_query expanded_queries)"

definition occurrences ::
  "(pystr \<Rightarrow> int \<Rightarrow> 'x + retrieval_result list) \<Rightarrow> int \<Rightarrow> pystr list
     \<Rightarrow> (pystr \<times> retrieval_result) list" where
  \<comment> \<open>for stating properties: the results the two loops visit, in the order they visit
      them, each with the paraphrase whose retrieval returned it\<close>
  "occurrences retriever top_k_per_query expanded_queries =
     concat (map (\<lambda>q. case retriever q top_k_per_query of
                         Inl e \<Rightarrow> []
                       | Inr results \<Rightarrow> map (Pair q) results) expanded_queries)"

section \<open>document\_processor.py\<close>

record document_processor =
  chunk_size :: int
  chunk_overlap :: int

definition delimiters :: "pystr list" where
  "delimiters = [str ''. '', str ''! '', str ''? '', [46, 10], [33, 10], [63, 10]]"

fun boundary_loop :: "pystr \<Rightarrow> pystr list \<Rightarrow> int" where
  "boundary_loop txt [] = - 1"
| "boundary_loop txt (delimiter # ds) =
     (let pos = rfind txt delimiter
      in if pos \<noteq> - 1 then pos + int (length delimiter) - 1 else boundary_loop txt ds)"

definition find_sentence_boundary :: "pystr \<Rightarrow> int" where
  "find_sentence_boundary txt = boundary_loop txt delimiters"

definition chunk_end :: "document_processor \<Rightarrow> pystr \<Rightarrow> int \<Rightarrow> int" where
  \<comment> \<open>the value of \<open>end\<close> when the chunk is extracted\<close>
  "chunk_end dp txt start =
     (let stop = start + chunk_size dp
      in if stop < int (length txt) then
           let window_start = max start (stop - 100);
               window_end = min (int (length txt)) (stop + 100);
               sentence_end = find_sentence_boundary (py_slice txt window_start window_end)
           in if sentence_end \<noteq> - 1 then window_start + sentence_end + 1 else stop
         else stop)"

definition new_chunk :: "int \<Rightarrow> pystr \<Rightarrow> int \<Rightarrow> int \<Rightarrow> chunk" where
  "new_chunk cid body start stop =
     \<lparr>chunk_id = cid, chunk_text = body, start_pos = start, end_pos = stop,
      chunk_length = length body\<rparr>"

partial_function (option) chunk_loop ::
  "document_processor \<Rightarrow> pystr \<Rightarrow> int \<Rightarrow> int \<Rightarrow> chunk list \<Rightarrow> chunk list option" where
  \<comment> \<open>the \<open>while\<close> loop; a run that never leaves the loop is \<open>None\<close>\<close>
  "chunk_loop dp txt start cid acc =
     (if start < int (length txt) then
        let stop = chunk_end dp txt start;
            body = strip (py_slice txt start stop);
            acc1 = (if body \<noteq> [] then acc @ [new_chunk cid body start stop] else acc);
            cid1 = (if body \<noteq> [] then cid + 1 else cid);
            start1 = stop - chunk_overlap dp
        in if start1 \<ge> int (length txt) - chunk_overlap dp then Some acc1
           else chunk_loop dp txt start1 cid1 acc1
      else Some acc)"

declare chunk_loop.simps [code]

definition create_chunks :: "document_processor \<Rightarrow> pystr \<Rightarrow> chunk list option" where
  "create_chunks dp txt = chunk_loop dp txt 0 0 []"

section \<open>Sample data\<close>

text \<open>
  Stand-ins for the external parts, and a small corpus, on which the definitions are
  evaluated.
\<close>

definition demo_ext :: "pystr externals" where
  "demo_ext =
     \<lparr>encode = (\<lambda>t. t),
      cosine = (\<lambda>a b. if a = b then 1 else if take 1 a = take 1 b then 1 / 2 else 0),
      tokenize = split_on 32,
      bm25_score = (\<lambda>corpus q i. real (length (filter (\<lambda>w. w \<in> set q) (corpus ! i))))\<rparr>"

definition demo_chunks :: "chunk list" where
  "demo_chunks =
     [new_chunk 0 (str ''xy'') 0 2, new_chunk 1 (str ''ab ef'') 2 7,
      new_chunk 2 (str ''ab cd'') 7 12, new_chunk 3 (str ''ab gh'') 12 17]"

definition demo_retriever :: "real \<Rightarrow> real \<Rightarrow> real \<Rightarrow> pystr hybrid_retriever" where
  "demo_retriever cw bw th = index_chunks demo_ext (init_retriever cw bw th) demo_chunks"

section \<open>Normalisation of the lexical scores\<close>

lemma fold_min_eq_Min: "fold min xs (x::real) = Min (set (x # xs))"
  using Min.set_eq_fold [of x xs] by simp

lemma fold_max_eq_Max: "fold max xs (x::real) = Max (set (x # xs))"
  using Max.set_eq_fold [of x xs] by simp

lemma np_min_eq_Min: "xs \<noteq> [] \<Longrightarrow> np_min xs = Min (set xs)"
  unfolding np_min_def using fold_min_eq_Min [of "tl xs" "hd xs"] by (cases xs) simp_all

lemma np_max_eq_Max: "xs \<noteq> [] \<Longrightarrow> np_max xs = Max (set xs)"
  unfolding np_max_def using fold_max_eq_Max [of "tl xs" "hd xs"] by (cases xs) simp_all

lemma length_normalize_scores: "length (normalize_scores xs) = length xs"
  by (simp add: normalize_scores_def Let_def)

section \<open>Slices and the stable descending sort\<close>

lemma py_slice_prefix: "0 \<le> k \<Longrightarrow> py_slice xs 0 k = take (nat k) xs"
  by (simp add: py_slice_def py_index_def Let_def min_def)

lemma py_slice_zero: "py_slice xs 0 0 = []"
  by (simp add: py_slice_def py_index_def)

lemma py_slice_drop_last: "k < 0 \<Longrightarrow> py_slice xs 0 k = take (length xs - nat (- k)) xs"
  by (auto simp: py_slice_def py_index_def Let_def max_def intro!: arg_cong2[where f=take])

lemma insort_key_map:
  "insort_key f (g x) (map g ys) = map g (insort_key (\<lambda>i. f (g i)) x ys)"
  by (induction ys) simp_all

lemma sort_key_map: "sort_key f (map g xs) = map g (sort_key (\<lambda>i. f (g i)) xs)"
  by (induction xs) (simp_all add: insort_key_map)

lemma sort_desc_map: "sort_desc f (map g xs) = map g (sort_desc (\<lambda>i. f (g i)) xs)"
  by (simp add: sort_desc_def sort_key_map)

lemma insort_key_stable_wrt:
  fixes key :: "nat \<Rightarrow> real"
  assumes "sorted_wrt (\<lambda>i j. key i < key j \<or> (key i = key j \<and> i < j)) ys"
    and "\<forall>y \<in> set ys. x < y"
  shows "sorted_wrt (\<lambda>i j. key i < key j \<or> (key i = key j \<and> i < j)) (insort_key key x ys)"
  using assms
proof (induction ys)
  case Nil
  then show ?case by simp
next
  case (Cons y ys)
  then show ?case by (auto simp: set_insort_key) 
qed

lemma sort_key_stable_wrt:
  fixes key :: "nat \<Rightarrow> real"
  assumes "sorted_wrt (<) xs"
  shows "sorted_wrt (\<lambda>i j. key i < key j \<or> (key i = key j \<and> i < j)) (sort_key key xs)"
  using assms
proof (induction xs)
  case Nil
  then show ?case by simp
next
  case (Cons x xs)
  then show ?case by (auto intro!: insort_key_stable_wrt)
qed

lemma sort_desc_stable_wrt:
  fixes k :: "nat \<Rightarrow> real"
  assumes "sorted_wrt (<) xs"
  shows "sorted_wrt (\<lambda>i j. k i > k j \<or> (k i = k j \<and> i < j)) (sort_desc k xs)"
  using sort_key_stable_wrt [OF assms, of "\<lambda>i. - k i"] by (simp add: sort_desc_def)

lemma set_sort_desc: "set (sort_desc k xs) = set xs"
  by (simp add: sort_desc_def)

lemma sorted_wrt_filter_upt: "sorted_wrt (<) (filter P [0..<n])"
  by (simp add: sorted_wrt_filter)

section \<open>The retriever after indexing\<close>

lemma indexed_fields:
  "chunks (index_chunks ext r0 cs) = cs"
  "chunk_embeddings (index_chunks ext r0 cs) = Some (map (encode ext) (map chunk_text cs))"
  "bm25 (index_chunks ext r0 cs) = Some (map (tokenize ext) (map chunk_text cs))"
  "threshold (index_chunks ext r0 cs) = threshold r0"
  "cosine_weight (index_chunks ext r0 cs) = cosine_weight r0"
  "bm25_weight (index_chunks ext r0 cs) = bm25_weight r0"
  by (simp_all add: index_chunks_def Let_def)

lemma length_hybrid_scores_indexed:
  "length (hybrid_scores ext (index_chunks ext r0 cs) q) = length cs"
  by (simp add: hybrid_scores_def cosine_scores_def bm25_scores_normalized_def
      length_normalize_scores get_scores_def indexed_fields)

lemma retrieve_indexed:
  assumes "cs \<noteq> []"
  shows "retrieve ext (index_chunks ext r0 cs) q top_k =
     Inr (py_slice (sort_desc hybrid_score (scored_results ext (index_chunks ext r0 cs) q)) 0 top_k)"
  using assms by (simp add: retrieve_def indexed_fields Let_def)

text \<open>
  Claim C3. For a non-empty array of lexical scores, \<open>_normalize_scores\<close> takes the
  minimum and the maximum of the array; when their difference is below \<open>1e-10\<close> every
  normalised score is exactly 1, and otherwise each normalised score is
  \<open>(score - min) / (max - min)\<close> and lies between 0 and 1.
\<close>

theorem normalize_scores_min_max:
  assumes "scores \<noteq> []"
  shows "np_min scores = Min (set scores) \<and> np_max scores = Max (set scores) \<and>
    (np_max scores - np_min scores < 1 / 10 ^ 10 \<longrightarrow>
       normalize_scores scores = replicate (length scores) 1) \<and>
    (\<not> np_max scores - np_min scores < 1 / 10 ^ 10 \<longrightarrow>
       normalize_scores scores =
         map (\<lambda>s. (s - np_min scores) / (np_max scores - np_min scores)) scores \<and>
       (\<forall>x \<in> set (normalize_scores scores). 0 \<le> x \<and> x \<le> 1))"
proof -
  have mn: "np_min scores = Min (set scores)" and mx: "np_max scores = Max (set scores)"
    using assms by (simp_all add: np_min_eq_Min np_max_eq_Max)
  have ones: "np_max scores - np_min scores < 1 / 10 ^ 10 \<Longrightarrow>
      normalize_scores scores = replicate (length scores) 1"
    using assms by (simp add: normalize_scores_def Let_def)
  have formula: "\<not> np_max scores - np_min scores < 1 / 10 ^ 10 \<Longrightarrow>
      normalize_scores scores =
        map (\<lambda>s. (s - np_min scores) / (np_max scores - np_min scores)) scores"
    using assms by (simp add: normalize_scores_def Let_def)
  have range: "0 \<le> x \<and> x \<le> 1"
    if big: "\<not> np_max scores - np_min scores < 1 / 10 ^ 10"
      and x: "x \<in> set (normalize_scores scores)" for x
  proof -
    from x formula [OF big] obtain s where s: "s \<in> set scores"
      and xs: "x = (s - np_min scores) / (np_max scores - np_min scores)"
      by auto
    have lo: "np_min scores \<le> s" using s mn by simp
    have hi: "s \<le> np_max scores" using s mx by simp
    have pos: "0 < np_max scores - np_min scores"
    proof -
      have "(0::real) < 1 / 10 ^ 10" by simp
      then show ?thesis using big by linarith
    qed
    show ?thesis using lo hi pos by (simp add: xs)
  qed
  show ?thesis using mn mx ones formula range by blast
qed

theorem normalize_scores_min_max_witness:
  "[1, 3, 2 :: real] \<noteq> [] \<and> normalize_scores [1, 3, 2] = [0, 1, 1 / 2] \<and>
   normalize_scores [5, 5] = [1, 1]"
  using normalize_scores_min_max [of "[1, 3, 2]"] normalize_scores_min_max [of "[5, 5]"]
  by (simp add: np_min_def np_max_def)

section \<open>Retrieval: filter, rank, truncate\<close>

lemma scored_results_indexed:
  "scored_results ext (index_chunks ext r0 cs) q =
     map (result_at ext (index_chunks ext r0 cs) q)
       (filter (\<lambda>idx. threshold r0 \<le> hybrid_scores ext (index_chunks ext r0 cs) q ! idx)
          [0..<length cs])"
  by (simp add: scored_results_def indexed_fields)

lemma hybrid_score_result_at:
  "hybrid_score (result_at ext r q i) = hybrid_scores ext r q ! i"
  "chunk (result_at ext r q i) = chunks r ! i"
  by (simp_all add: result_at_def)


lemma demo_hybrid:
  "hybrid_scores demo_ext (demo_retriever cw bw th) (str ''ab cd'') = [0, cw / 2 + bw / 2, cw + bw, cw / 2 + bw / 2]"
  by (simp add: hybrid_scores_def cosine_scores_def bm25_scores_normalized_def get_scores_def
      normalize_scores_def np_min_def np_max_def demo_retriever_def demo_ext_def demo_chunks_def
      index_chunks_def init_retriever_def new_chunk_def str_def Let_def upt_rec)

lemma demo_fields:
  "chunks (demo_retriever cw bw th) = demo_chunks"
  "threshold (demo_retriever cw bw th) = th"
  "demo_chunks \<noteq> []" "length demo_chunks = 4"
  by (simp_all add: demo_retriever_def indexed_fields init_retriever_def demo_chunks_def)

lemma demo_retrieve:
  "retrieve demo_ext (demo_retriever cw bw th) q k =
     Inr (py_slice (sort_desc hybrid_score (scored_results demo_ext (demo_retriever cw bw th) q)) 0 k)"
  unfolding demo_retriever_def by (rule retrieve_indexed) (simp add: demo_chunks_def)

lemma upt4: "[0..<4] = [0, 1, 2, 3]"
  by (simp add: upt_rec)

lemma demo_ranked:
  "map (chunk_id \<circ> chunk)
     (sort_desc hybrid_score
        (scored_results demo_ext (demo_retriever (7 / 10) (3 / 10) (45 / 100)) (str ''ab cd''))) =
   [2, 1, 3]"
  by (simp add: scored_results_def demo_fields demo_hybrid upt4 sort_desc_def
      hybrid_score_result_at result_at_def demo_chunks_def new_chunk_def)

lemma demo_retrieve_ids:
  "0 \<le> k \<Longrightarrow> \<exists>out. retrieve demo_ext (demo_retriever (7 / 10) (3 / 10) (45 / 100)) (str ''ab cd'') k = Inr out \<and>
     map (chunk_id \<circ> chunk) out = take (nat k) [2, 1, 3]"
proof -
  assume k: "0 \<le> k"
  let ?R = "sort_desc hybrid_score
      (scored_results demo_ext (demo_retriever (7 / 10) (3 / 10) (45 / 100)) (str ''ab cd''))"
  have "map (chunk_id \<circ> chunk) (take (nat k) ?R) = take (nat k) (map (chunk_id \<circ> chunk) ?R)"
    by (simp only: take_map)
  then have "map (chunk_id \<circ> chunk) (take (nat k) ?R) = take (nat k) [2, 1, 3]"
    by (simp only: demo_ranked)
  then show ?thesis
    using k by (simp only: demo_retrieve py_slice_prefix) blast
qed


lemma demo_scored_neg:
  "scored_results demo_ext (demo_retriever (- 1) (3 / 10) (- 2)) (str ''ab cd'') =
     map (result_at demo_ext (demo_retriever (- 1) (3 / 10) (- 2)) (str ''ab cd'')) [0, 1, 2, 3]"
  by (simp add: scored_results_def demo_fields demo_hybrid upt4)

lemma demo_ranked_neg:
  "map (chunk_id \<circ> chunk)
     (sort_desc hybrid_score
        (scored_results demo_ext (demo_retriever (- 1) (3 / 10) (- 2)) (str ''ab cd''))) =
   [0, 1, 3, 2]"
  by (simp add: demo_scored_neg demo_fields demo_hybrid sort_desc_def
      hybrid_score_result_at result_at_def demo_chunks_def new_chunk_def)


text \<open>
  Claim C1. On an index built from a non-empty chunk list, and for \<open>top_k \<ge> 0\<close> (the
  contract asks for \<open>top_k \<ge> 1\<close>), \<open>retrieve\<close> returns without error the results of a
  list of chunk positions: there are at most \<open>top_k\<close> of them, none has a hybrid score
  strictly below the threshold, they are in descending order of hybrid score, and of two
  results of equal score the one whose chunk comes first in the indexed list comes
  first. When no chunk reaches the threshold the result is the empty list, not an error.
\<close>

theorem retrieve_filtered_ranked_truncated:
  assumes "cs \<noteq> []" and "r = index_chunks ext r0 cs" and "0 \<le> top_k"
  shows "\<exists>idxs. retrieve ext r q top_k = Inr (map (result_at ext r q) idxs) \<and>
     int (length idxs) \<le> top_k \<and>
     (\<forall>i \<in> set idxs. i < length cs \<and> chunk (result_at ext r q i) = cs ! i \<and>
        hybrid_score (result_at ext r q i) = hybrid_scores ext r q ! i \<and>
        \<not> hybrid_scores ext r q ! i < threshold r) \<and>
     sorted_wrt (\<lambda>i j. hybrid_scores ext r q ! i > hybrid_scores ext r q ! j \<or>
        (hybrid_scores ext r q ! i = hybrid_scores ext r q ! j \<and> i < j)) idxs \<and>
     ((\<forall>i < length cs. hybrid_scores ext r q ! i < threshold r) \<longrightarrow>
        retrieve ext r q top_k = Inr [])"
proof -
  define hs where "hs = hybrid_scores ext r q"
  define above where "above = filter (\<lambda>idx. threshold r \<le> hs ! idx) [0..<length cs]"
  define ranked where "ranked = sort_desc (\<lambda>i. hs ! i) above"
  define idxs where "idxs = take (nat top_k) ranked"
  have res: "scored_results ext r q = map (result_at ext r q) above"
    using assms(2) by (simp add: scored_results_indexed above_def hs_def indexed_fields)
  have "sort_desc hybrid_score (scored_results ext r q) = map (result_at ext r q) ranked"
    by (simp add: res sort_desc_map hybrid_score_result_at ranked_def hs_def)
  then have ret: "retrieve ext r q top_k = Inr (map (result_at ext r q) idxs)"
    using assms by (simp add: retrieve_indexed py_slice_prefix idxs_def take_map)
  have len: "int (length idxs) \<le> top_k"
    using assms(3) by (simp add: idxs_def)
  have sub: "set idxs \<subseteq> set above"
    using set_take_subset [of "nat top_k" ranked] by (simp add: idxs_def ranked_def set_sort_desc)
  have mem: "i < length cs \<and> chunk (result_at ext r q i) = cs ! i \<and>
        hybrid_score (result_at ext r q i) = hs ! i \<and> \<not> hs ! i < threshold r"
    if "i \<in> set idxs" for i
  proof -
    from that sub have "i \<in> set above" by blast
    then show ?thesis
      using assms(2) by (auto simp: above_def hybrid_score_result_at hs_def indexed_fields)
  qed
  have "sorted_wrt (<) above"
    by (simp add: above_def sorted_wrt_filter)
  then have "sorted_wrt (\<lambda>i j. hs ! i > hs ! j \<or> (hs ! i = hs ! j \<and> i < j)) ranked"
    unfolding ranked_def by (rule sort_desc_stable_wrt)
  then have srt: "sorted_wrt (\<lambda>i j. hs ! i > hs ! j \<or> (hs ! i = hs ! j \<and> i < j)) idxs"
    unfolding idxs_def by (rule sorted_wrt_take)
  have empty: "retrieve ext r q top_k = Inr []" if "\<forall>i < length cs. hs ! i < threshold r"
  proof -
    have "above = []" using that by (auto simp: above_def filter_empty_conv)
    then show ?thesis using ret by (simp add: idxs_def ranked_def sort_desc_def)
  qed
  show ?thesis
    using ret len mem srt empty unfolding hs_def by blast
qed

theorem retrieve_filtered_ranked_truncated_witness:
  "demo_chunks \<noteq> [] \<and> (0::int) \<le> 2 \<and>
   (\<exists>out. retrieve demo_ext (demo_retriever (7 / 10) (3 / 10) (45 / 100)) (str ''ab cd'') 3 = Inr out \<and>
      map (chunk_id \<circ> chunk) out = [2, 1, 3]) \<and>
   (\<exists>out. retrieve demo_ext (demo_retriever (7 / 10) (3 / 10) (45 / 100)) (str ''ab cd'') 2 = Inr out \<and>
      map (chunk_id \<circ> chunk) out = [2, 1]) \<and>
   (\<exists>idxs. retrieve demo_ext (demo_retriever (7 / 10) (3 / 10) (45 / 100)) (str ''ab cd'') 2 =
        Inr (map (result_at demo_ext (demo_retriever (7 / 10) (3 / 10) (45 / 100)) (str ''ab cd'')) idxs) \<and>
      int (length idxs) \<le> 2)"
proof -
  have h1: "demo_chunks \<noteq> []" by (simp add: demo_fields)
  have h2: "demo_retriever (7 / 10) (3 / 10) (45 / 100) =
      index_chunks demo_ext (init_retriever (7 / 10) (3 / 10) (45 / 100)) demo_chunks"
    by (simp add: demo_retriever_def)
  have h3: "(0::int) \<le> 2" by simp
  have e3: "\<exists>out. retrieve demo_ext (demo_retriever (7 / 10) (3 / 10) (45 / 100)) (str ''ab cd'') 3 = Inr out \<and>
      map (chunk_id \<circ> chunk) out = [2, 1, 3]"
    using demo_retrieve_ids [of 3] by simp
  have e2: "\<exists>out. retrieve demo_ext (demo_retriever (7 / 10) (3 / 10) (45 / 100)) (str ''ab cd'') 2 = Inr out \<and>
      map (chunk_id \<circ> chunk) out = [2, 1]"
    using demo_retrieve_ids [of 2] by (simp add: numeral_2_eq_2)
  have e: "\<exists>idxs. retrieve demo_ext (demo_retriever (7 / 10) (3 / 10) (45 / 100)) (str ''ab cd'') 2 =
        Inr (map (result_at demo_ext (demo_retriever (7 / 10) (3 / 10) (45 / 100)) (str ''ab cd'')) idxs) \<and>
      int (length idxs) \<le> 2"
    using retrieve_filtered_ranked_truncated [OF h1 h2 h3, of "str ''ab cd''"]
    apply (elim exE conjE)
    apply (rule exI)
    apply (rule conjI)
     apply assumption
    apply assumption
    done
  show ?thesis
    by (intro conjI) (rule h1 h3 e3 e2 e)+
qed

text \<open>
  Claim C8, as amended. \<open>retrieve\<close> validates none of its parameters: whatever \<open>top_k\<close>,
  the weights and the threshold are, it fails only with \<open>ValueError\<close> and only when nothing
  is indexed. On a built index \<open>top_k = 0\<close> gives the empty list and a negative \<open>top_k\<close>
  gives the ranked list without its last \<open>-top_k\<close> entries.
\<close>

theorem retrieve_validates_nothing:
  "(retrieve ext r q top_k = Inl e \<longleftrightarrow>
      e = ValueError \<and> (chunks r = [] \<or> chunk_embeddings r = None \<or> bm25 r = None)) \<and>
   (\<not> (chunks r = [] \<or> chunk_embeddings r = None \<or> bm25 r = None) \<longrightarrow>
      retrieve ext r q 0 = Inr [] \<and>
      (top_k < 0 \<longrightarrow>
         retrieve ext r q top_k =
           Inr (take (length (scored_results ext r q) - nat (- top_k))
                  (sort_desc hybrid_score (scored_results ext r q)))))"
  by (auto simp: retrieve_def Let_def py_slice_zero py_slice_drop_last sort_desc_def)


theorem retrieve_validates_nothing_witness:
  "retrieve demo_ext (demo_retriever (7 / 10) (3 / 10) 2) (str ''ab cd'') 0 = Inr [] \<and>
   retrieve demo_ext (init_retriever (7 / 10) (3 / 10) (45 / 100)) (str ''ab cd'') 5 = Inl ValueError"
  using retrieve_validates_nothing [of demo_ext "demo_retriever (7 / 10) (3 / 10) 2" "str ''ab cd''" 0 ValueError]
    retrieve_validates_nothing [of demo_ext "init_retriever (7 / 10) (3 / 10) (45 / 100)" "str ''ab cd''" 5 ValueError]
  by (simp add: demo_fields demo_retriever_def indexed_fields init_retriever_def)

text \<open>
  The claim as stated fails: with \<open>top_k = 0\<close>, and with a negative weight, a threshold of
  \<open>-2\<close> and \<open>top_k = -1\<close>, \<open>retrieve\<close> returns a list.
\<close>

theorem retrieve_invalid_parameters_counterexample:
  "retrieve demo_ext (demo_retriever (7 / 10) (3 / 10) (45 / 100)) (str ''ab cd'') 0 = Inr [] \<and>
   map_sum id (map (chunk_id \<circ> chunk))
     (retrieve demo_ext (demo_retriever (- 1) (3 / 10) (- 2)) (str ''ab cd'') (- 1)) =
   Inr [0, 1, 3]"
proof -
  let ?R = "sort_desc hybrid_score
      (scored_results demo_ext (demo_retriever (- 1) (3 / 10) (- 2)) (str ''ab cd''))"
  have "length (map (chunk_id \<circ> chunk) ?R) = 4"
    by (simp only: demo_ranked_neg) simp
  then have len: "length ?R = 4" by simp
  have "map (chunk_id \<circ> chunk) (take 3 ?R) = take 3 (map (chunk_id \<circ> chunk) ?R)"
    by (simp only: take_map)
  then have "map (chunk_id \<circ> chunk) (take 3 ?R) = [0, 1, 3]"
    by (simp only: demo_ranked_neg) simp
  then have "map_sum id (map (chunk_id \<circ> chunk))
     (retrieve demo_ext (demo_retriever (- 1) (3 / 10) (- 2)) (str ''ab cd'') (- 1)) =
     Inr [0, 1, 3]"
    using len by (simp add: demo_retrieve py_slice_drop_last del: map_map)
  then show ?thesis
    by (simp add: demo_retrieve py_slice_zero)
qed


end
